theory Spec2Isabelle
  imports Main "HOL-Library.Word"
begin

section \<open>The globals of main.c\<close>

text \<open>
  Every global of \<^verbatim>\<open>main.c\<close> is a \<^verbatim>\<open>static uint8_t\<close>, so each one is an 8-bit word:
  \<open>+\<close> and \<open>-\<close> wrap modulo 256, and \<open>\<le>\<close>, \<open><\<close>, \<open>div\<close> and \<open>mod\<close> are the unsigned ones,
  which is what C computes for \<^verbatim>\<open>uint8_t\<close> operands that are promoted to \<^verbatim>\<open>int\<close> and stored
  back. The two flags \<^verbatim>\<open>start_stopwatch\<close> and \<open>reset_stopwatch\<close> are bytes as well; the code
  tests them with \<^verbatim>\<open>== 0x01\<close>.

  The handlers of the PMOD buttons also call \<^verbatim>\<open>RGB_LED_Output\<close> with one of three colour
  constants. The driver is not part of the program text; the field \<open>rgb_led\<close> records the last
  colour handed to it, and \<open>None\<close> stands for "no call yet".
\<close>

type_synonym uint8_t = "8 word"

datatype rgb_colour = RGB_LED_OFF | RGB_LED_RED | RGB_LED_GREEN

record globals =
  counter :: uint8_t
  ms_elapsed :: uint8_t
  milliseconds :: uint8_t
  seconds :: uint8_t
  minutes :: uint8_t
  start_stopwatch :: uint8_t
  reset_stopwatch :: uint8_t
  rgb_led :: "rgb_colour option"

text \<open>The static initialisers: every global starts at 0.\<close>

definition init_globals :: globals where
  "init_globals =
     \<lparr>counter = 0, ms_elapsed = 0, milliseconds = 0, seconds = 0, minutes = 0,
      start_stopwatch = 0, reset_stopwatch = 0, rgb_led = None\<rparr>"

section \<open>The interrupt handlers\<close>

text \<open>
  \<^verbatim>\<open>PMOD_BTN_Handler\<close>: a switch on the status byte with the cases 0x04, 0x08, 0x10, 0x20 and
  a default. The case 0x20 and the default do nothing.
\<close>

definition PMOD_BTN_Handler :: "uint8_t \<Rightarrow> globals \<Rightarrow> globals" where
  "PMOD_BTN_Handler pmod_btn_status g =
     (if pmod_btn_status = 4 then g\<lparr>rgb_led := Some RGB_LED_GREEN, start_stopwatch := 1\<rparr>
      else if pmod_btn_status = 8 then g\<lparr>rgb_led := Some RGB_LED_RED, start_stopwatch := 0\<rparr>
      else if pmod_btn_status = 16 then g\<lparr>rgb_led := Some RGB_LED_OFF, reset_stopwatch := 1\<rparr>
      else if pmod_btn_status = 32 then g
      else g)"

text \<open>
  \<^verbatim>\<open>EduBase_Button_Handler\<close>: 0x08 steps the counter up and wraps it from 15 to 0, 0x04
  steps it down and wraps it from 0 to 15; every other status byte is ignored.
\<close>

definition EduBase_Button_Handler :: "uint8_t \<Rightarrow> globals \<Rightarrow> globals" where
  "EduBase_Button_Handler edubase_button_status g =
     (if edubase_button_status = 8 then
        (if counter g \<ge> 15 then g\<lparr>counter := 0\<rparr> else g\<lparr>counter := counter g + 1\<rparr>)
      else if edubase_button_status = 4 then
        (if counter g \<le> 0 then g\<lparr>counter := 15\<rparr> else g\<lparr>counter := counter g - 1\<rparr>)
      else g)"

text \<open>
  \<^verbatim>\<open>Timer_0A_Periodic_Task\<close>: the whole body sits under \<^verbatim>\<open>if (start_stopwatch == 0x01)\<close>.
  Inside, the statements run one after the other, each \<^verbatim>\<open>if\<close> reading what the previous one
  wrote; the reset test comes last.
\<close>

definition Timer_0A_Periodic_Task :: "globals \<Rightarrow> globals" where
  "Timer_0A_Periodic_Task g =
     (if start_stopwatch g = 1 then
        let g1 = g\<lparr>ms_elapsed := ms_elapsed g + 1\<rparr>;
            g2 = (if ms_elapsed g1 > 99
                  then g1\<lparr>ms_elapsed := 0, milliseconds := milliseconds g1 + 1\<rparr> else g1);
            g3 = (if milliseconds g2 > 9
                  then g2\<lparr>milliseconds := 0, seconds := seconds g2 + 1\<rparr> else g2);
            g4 = (if seconds g3 > 59
                  then g3\<lparr>seconds := 0, minutes := minutes g3 + 1\<rparr> else g3);
            g5 = (if minutes g4 > 9 then g4\<lparr>minutes := 0\<rparr> else g4)
        in (if reset_stopwatch g5 = 1
            then g5\<lparr>reset_stopwatch := 0, start_stopwatch := 0, ms_elapsed := 0,
                    milliseconds := 0, seconds := 0, minutes := 0\<rparr>
            else g5)
      else g)"

text \<open>
  \<^verbatim>\<open>Calculate_Stopwatch_Value\<close> writes the four digits into the caller's array. The array is
  a list here and the four stores are list updates; \<^verbatim>\<open>main\<close> passes an array of length 4.
\<close>

definition Calculate_Stopwatch_Value :: "globals \<Rightarrow> uint8_t list \<Rightarrow> uint8_t list" where
  "Calculate_Stopwatch_Value g stopwatch_value =
     stopwatch_value[0 := milliseconds g, 1 := seconds g mod 10,
                     2 := seconds g div 10, 3 := minutes g]"

section \<open>Runs of the program\<close>

text \<open>\<open>ticks n\<close> is \<open>n\<close> consecutive timer interrupts with no button interrupt between them.\<close>

primrec ticks :: "nat \<Rightarrow> globals \<Rightarrow> globals" where
  "ticks 0 g = g"
| "ticks (Suc n) g = Timer_0A_Periodic_Task (ticks n g)"

text \<open>\<open>presses n b\<close> is \<open>n\<close> consecutive EduBase button interrupts with status byte \<open>b\<close>.\<close>

primrec presses :: "nat \<Rightarrow> uint8_t \<Rightarrow> globals \<Rightarrow> globals" where
  "presses 0 b g = g"
| "presses (Suc n) b g = EduBase_Button_Handler b (presses n b g)"

text \<open>
  The three interrupt sources, and the states the program can be in: the initial one, and any
  state one interrupt later than a reachable one.
\<close>

datatype interrupt = Timer_0A | PMOD_BTN uint8_t | EduBase_Button uint8_t

fun handle :: "interrupt \<Rightarrow> globals \<Rightarrow> globals" where
  "handle Timer_0A g = Timer_0A_Periodic_Task g"
| "handle (PMOD_BTN b) g = PMOD_BTN_Handler b g"
| "handle (EduBase_Button b) g = EduBase_Button_Handler b g"

inductive reachable :: "globals \<Rightarrow> bool" where
  reachable_init: "reachable init_globals"
| reachable_step: "reachable g \<Longrightarrow> reachable (handle i g)"

text \<open>The bounds of the data model.\<close>

definition in_bounds :: "globals \<Rightarrow> bool" where
  "in_bounds g \<longleftrightarrow>
     ms_elapsed g \<le> 99 \<and> milliseconds g \<le> 9 \<and> seconds g \<le> 59 \<and> minutes g \<le> 9 \<and>
     counter g \<le> 15"

text \<open>The elapsed time in timer periods that the four time counters stand for.\<close>

definition elapsed :: "globals \<Rightarrow> nat" where
  "elapsed g =
     unat (ms_elapsed g) + 100 * unat (milliseconds g) + 1000 * unat (seconds g) +
     60000 * unat (minutes g)"

section \<open>Arithmetic of the digits\<close>

lemma split_nat: "r < b \<Longrightarrow> (r + b * k) mod b = r \<and> (r + b * k) div b = (k::nat)"
  by simp

lemma digits_nat:
  fixes e m s mi :: nat
  assumes "e < 100" "m < 10" "s < 60"
  shows "(e + 100 * m + 1000 * s + 60000 * mi) mod 100 = e"
    and "(e + 100 * m + 1000 * s + 60000 * mi) div 100 mod 10 = m"
    and "(e + 100 * m + 1000 * s + 60000 * mi) div 1000 mod 60 = s"
    and "(e + 100 * m + 1000 * s + 60000 * mi) div 60000 = mi"
proof -
  define T where "T = e + 100 * m + 1000 * s + 60000 * mi"
  define K where "K = s + 60 * mi"
  define L where "L = m + 10 * K"
  have a: "T = e + 100 * L" by (simp add: T_def L_def K_def)
  have b: "T = (e + 100 * m) + 1000 * K" by (simp add: T_def K_def)
  have c: "T = (e + 100 * m + 1000 * s) + 60000 * mi" by (simp add: T_def)
  have 1: "T mod 100 = e"
    unfolding a using split_nat [OF assms(1)] by blast
  have "T div 100 = L"
    unfolding a using split_nat [OF assms(1)] by blast
  then have 2: "T div 100 mod 10 = m"
    unfolding L_def using split_nat [OF assms(2)] by simp
  from assms have "e + 100 * m < 1000" by simp
  then have "T div 1000 = K"
    unfolding b using split_nat by blast
  then have 3: "T div 1000 mod 60 = s"
    unfolding K_def using split_nat [OF assms(3)] by simp
  from assms have "e + 100 * m + 1000 * s < 60000" by simp
  then have 4: "T div 60000 = mi"
    unfolding c using split_nat by blast
  from 1 2 3 4 show "(e + 100 * m + 1000 * s + 60000 * mi) mod 100 = e"
    and "(e + 100 * m + 1000 * s + 60000 * mi) div 100 mod 10 = m"
    and "(e + 100 * m + 1000 * s + 60000 * mi) div 1000 mod 60 = s"
    and "(e + 100 * m + 1000 * s + 60000 * mi) div 60000 = mi"
    unfolding T_def by blast+
qed

lemma mod_div_nat: "(m mod (n * q)) div n = (m div n) mod (q::nat)"
  by (cases "n = 0") (simp_all add: mod_mult2_eq)

lemma wrap_digits:
  fixes x :: nat
  shows "x mod 600000 mod 100 = x mod 100"
    and "x mod 600000 div 100 mod 10 = x div 100 mod 10"
    and "x mod 600000 div 1000 mod 60 = x div 1000 mod 60"
    and "x mod 600000 div 60000 = x div 60000 mod 10"
proof -
  show "x mod 600000 mod 100 = x mod 100" by (simp add: mod_mod_cancel)
  have "x mod 600000 div 100 = x div 100 mod 6000"
    using mod_div_nat [of x 100 6000] by simp
  then show "x mod 600000 div 100 mod 10 = x div 100 mod 10" by (simp add: mod_mod_cancel)
  have "x mod 600000 div 1000 = x div 1000 mod 600"
    using mod_div_nat [of x 1000 600] by simp
  then show "x mod 600000 div 1000 mod 60 = x div 1000 mod 60" by (simp add: mod_mod_cancel)
  show "x mod 600000 div 60000 = x div 60000 mod 10"
    using mod_div_nat [of x 60000 10] by simp
qed

lemma shift_digits:
  fixes T :: nat
  shows "(T + 100) mod 100 = T mod 100"
    and "(T + 100) div 100 mod 10 = (T div 100 mod 10 + 1) mod 10"
    and "(T + 1000) mod 100 = T mod 100"
    and "(T + 1000) div 100 mod 10 = T div 100 mod 10"
    and "(T + 1000) div 1000 mod 60 = (T div 1000 mod 60 + 1) mod 60"
proof -
  show "(T + 100) mod 100 = T mod 100" by simp
  have "(T + 100) div 100 = Suc (T div 100)"
    using div_add_self2 [of 100 T] by simp
  then show "(T + 100) div 100 mod 10 = (T div 100 mod 10 + 1) mod 10"
    by (simp add: mod_Suc_eq)
  have "(T + 1000) mod 100 = (T + 10 * 100) mod 100" by simp
  also have "\<dots> = T mod 100" by (simp only: mod_mult_self1)
  finally show "(T + 1000) mod 100 = T mod 100" .
  have "(T + 1000) div 100 = (T + 10 * 100) div 100" by simp
  also have "\<dots> = 10 + T div 100" by (simp only: div_mult_self1)
  finally show "(T + 1000) div 100 mod 10 = T div 100 mod 10" by simp
  have "(T + 1000) div 1000 = Suc (T div 1000)"
    using div_add_self2 [of 1000 T] by simp
  then show "(T + 1000) div 1000 mod 60 = (T div 1000 mod 60 + 1) mod 60"
    by (simp add: mod_Suc_eq)
qed

section \<open>One timer interrupt\<close>

lemma u8_inc: "unat x < 255 \<Longrightarrow> unat (x + 1 :: uint8_t) = Suc (unat x)"
  using unat_add_lem [of x 1] by simp

lemma in_bounds_unat:
  "in_bounds g \<longleftrightarrow>
     unat (ms_elapsed g) \<le> 99 \<and> unat (milliseconds g) \<le> 9 \<and> unat (seconds g) \<le> 59 \<and>
     unat (minutes g) \<le> 9 \<and> unat (counter g) \<le> 15"
  by (simp add: in_bounds_def word_le_nat_alt)

lemma in_bounds_inc:
  assumes "in_bounds g"
  shows "unat (ms_elapsed g + 1) = Suc (unat (ms_elapsed g))"
    and "unat (milliseconds g + 1) = Suc (unat (milliseconds g))"
    and "unat (seconds g + 1) = Suc (unat (seconds g))"
    and "unat (minutes g + 1) = Suc (unat (minutes g))"
  using assms by (simp_all add: in_bounds_unat u8_inc)


lemma Timer_reset:
  "start_stopwatch g = 1 \<Longrightarrow> reset_stopwatch g = 1 \<Longrightarrow>
   Timer_0A_Periodic_Task g =
     g\<lparr>reset_stopwatch := 0, start_stopwatch := 0, ms_elapsed := 0,
       milliseconds := 0, seconds := 0, minutes := 0\<rparr>"
  by (simp add: Timer_0A_Periodic_Task_def Let_def)

lemma Timer_in_bounds: "in_bounds g \<Longrightarrow> in_bounds (Timer_0A_Periodic_Task g)"
  by (simp add: Timer_0A_Periodic_Task_def Let_def in_bounds_inc word_less_nat_alt)
     (simp add: in_bounds_unat in_bounds_inc)

lemma PMOD_in_bounds: "in_bounds g \<Longrightarrow> in_bounds (PMOD_BTN_Handler b g)"
  by (simp add: PMOD_BTN_Handler_def in_bounds_def)

lemma EduBase_in_bounds: "in_bounds g \<Longrightarrow> in_bounds (EduBase_Button_Handler b g)"
proof -
  assume g: "in_bounds g"
  have up: "unat (counter g + 1) \<le> 15" if "\<not> 15 \<le> counter g"
    using that by (simp add: word_le_nat_alt u8_inc)
  have down: "unat (counter g - 1) \<le> 15" if "counter g \<noteq> 0"
    using that g by (auto simp add: in_bounds_unat unat_minus_one)
  from g up down show ?thesis
    by (simp add: EduBase_Button_Handler_def in_bounds_unat)
qed

lemma handle_in_bounds: "in_bounds g \<Longrightarrow> in_bounds (handle i g)"
  by (cases i) (simp_all add: Timer_in_bounds PMOD_in_bounds EduBase_in_bounds)

lemma init_in_bounds: "in_bounds init_globals"
  by (simp add: in_bounds_def init_globals_def)

lemma reachable_in_bounds: "reachable g \<Longrightarrow> in_bounds g"
  by (induction rule: reachable.induct) (simp_all add: init_in_bounds handle_in_bounds)

lemma Timer_flags:
  assumes "start_stopwatch g = 1" "reset_stopwatch g \<noteq> 1"
  shows "start_stopwatch (Timer_0A_Periodic_Task g) = 1"
    and "reset_stopwatch (Timer_0A_Periodic_Task g) = reset_stopwatch g"
    and "counter (Timer_0A_Periodic_Task g) = counter g"
    and "rgb_led (Timer_0A_Periodic_Task g) = rgb_led g"
  using assms by (simp_all add: Timer_0A_Periodic_Task_def Let_def)

lemma Timer_elapsed:
  assumes "in_bounds g" "start_stopwatch g = 1" "reset_stopwatch g \<noteq> 1"
  shows "elapsed (Timer_0A_Periodic_Task g) = (elapsed g + 1) mod 600000"
proof (cases "unat (ms_elapsed g) = 99 \<and> unat (milliseconds g) = 9 \<and>
              unat (seconds g) = 59 \<and> unat (minutes g) = 9")
  case True
  with assms show ?thesis
    by (simp add: Timer_0A_Periodic_Task_def Let_def elapsed_def word_less_nat_alt in_bounds_inc)
next
  case False
  with assms show ?thesis
    by (auto simp add: Timer_0A_Periodic_Task_def Let_def elapsed_def word_less_nat_alt
        in_bounds_inc in_bounds_unat)
qed

section \<open>Many timer interrupts\<close>


lemma ticks_running:
  assumes "in_bounds g" "start_stopwatch g = 1" "reset_stopwatch g \<noteq> 1"
  shows "in_bounds (ticks n g) \<and> start_stopwatch (ticks n g) = 1 \<and>
         reset_stopwatch (ticks n g) = reset_stopwatch g \<and>
         counter (ticks n g) = counter g \<and> rgb_led (ticks n g) = rgb_led g \<and>
         elapsed (ticks n g) = (elapsed g + n) mod 600000"
proof (induction n)
  case 0
  from assms(1) have "elapsed g < 600000"
    by (simp add: in_bounds_unat elapsed_def)
  with assms show ?case by simp
next
  case (Suc n)
  then have "reset_stopwatch (ticks n g) \<noteq> 1" using assms(3) by simp
  with Suc show ?case
    by (simp add: Timer_in_bounds Timer_flags Timer_elapsed mod_Suc_eq)
qed

lemma elapsed_digits:
  assumes "in_bounds g"
  shows "unat (ms_elapsed g) = elapsed g mod 100"
    and "unat (milliseconds g) = elapsed g div 100 mod 10"
    and "unat (seconds g) = elapsed g div 1000 mod 60"
    and "unat (minutes g) = elapsed g div 60000"
proof -
  from assms have b: "unat (ms_elapsed g) < 100" "unat (milliseconds g) < 10"
    "unat (seconds g) < 60"
    by (simp_all add: in_bounds_unat)
  show "unat (ms_elapsed g) = elapsed g mod 100"
    and "unat (milliseconds g) = elapsed g div 100 mod 10"
    and "unat (seconds g) = elapsed g div 1000 mod 60"
    and "unat (minutes g) = elapsed g div 60000"
    unfolding elapsed_def by (simp_all only: digits_nat [OF b])
qed

lemma ticks_digits:
  assumes "in_bounds g" "start_stopwatch g = 1" "reset_stopwatch g \<noteq> 1"
  shows "unat (ms_elapsed (ticks n g)) = (elapsed g + n) mod 100"
    and "unat (milliseconds (ticks n g)) = (elapsed g + n) div 100 mod 10"
    and "unat (seconds (ticks n g)) = (elapsed g + n) div 1000 mod 60"
    and "unat (minutes (ticks n g)) = (elapsed g + n) div 60000 mod 10"
proof -
  from ticks_running [OF assms, of n]
  have b: "in_bounds (ticks n g)" and e: "elapsed (ticks n g) = (elapsed g + n) mod 600000"
    by simp_all
  show "unat (ms_elapsed (ticks n g)) = (elapsed g + n) mod 100"
    and "unat (milliseconds (ticks n g)) = (elapsed g + n) div 100 mod 10"
    and "unat (seconds (ticks n g)) = (elapsed g + n) div 1000 mod 60"
    and "unat (minutes (ticks n g)) = (elapsed g + n) div 60000 mod 10"
    by (simp_all only: elapsed_digits [OF b] e wrap_digits)
qed

lemma u8_carry:
  fixes x k :: uint8_t
  assumes "x \<le> k" "unat k < 255"
  shows "k < x + 1 \<longleftrightarrow> x = k"
proof -
  from assms have "unat x \<le> unat k" by (simp add: word_le_nat_alt)
  with assms(2) have "unat (x + 1) = Suc (unat x)" by (simp add: u8_inc)
  with \<open>unat x \<le> unat k\<close> show ?thesis
    by (auto simp add: word_less_nat_alt word_unat_eq_iff)
qed

section \<open>The display counter\<close>

lemma EduBase_dec:
  "EduBase_Button_Handler 4 (g\<lparr>counter := c\<rparr>) =
     g\<lparr>counter := (if c \<le> 0 then 15 else c - 1)\<rparr>"
  by (simp add: EduBase_Button_Handler_def)

lemma EduBase_inc:
  "EduBase_Button_Handler 8 (g\<lparr>counter := c\<rparr>) =
     g\<lparr>counter := (if c \<ge> 15 then 0 else c + 1)\<rparr>"
  by (simp add: EduBase_Button_Handler_def)

lemma presses_numeral:
  "presses (numeral n) b g = EduBase_Button_Handler b (presses (pred_numeral n) b g)"
  by (simp add: numeral_eq_Suc)

section \<open>The claims\<close>



text \<open>
  Claim C2. With the stopwatch running and no reset pending, one timer interrupt taken at
  \<open>ms_elapsed = 99\<close>, \<open>milliseconds = 9\<close>, \<open>seconds = 59\<close>, \<open>minutes = 9\<close> carries through
  all four counters in the same invocation and leaves each of them at 0; nothing else changes.
  More generally, on every state whose time counters are within their bounds the interrupt
  steps \<open>ms_elapsed\<close> and hands each carry on to the next counter within the same invocation:
  a counter is stepped exactly when all the counters below it were at their maximum, and a
  counter at its maximum that is stepped goes to 0.
\<close>

theorem cascade_in_one_tick:
  assumes "start_stopwatch g = 1" "reset_stopwatch g \<noteq> 1"
  shows "(ms_elapsed g = 99 \<and> milliseconds g = 9 \<and> seconds g = 59 \<and> minutes g = 9 \<longrightarrow>
            Timer_0A_Periodic_Task g =
              g\<lparr>ms_elapsed := 0, milliseconds := 0, seconds := 0, minutes := 0\<rparr>) \<and>
         (ms_elapsed g \<le> 99 \<and> milliseconds g \<le> 9 \<and> seconds g \<le> 59 \<and> minutes g \<le> 9 \<longrightarrow>
            Timer_0A_Periodic_Task g =
              g\<lparr>ms_elapsed := (if ms_elapsed g = 99 then 0 else ms_elapsed g + 1),
                milliseconds :=
                  (if ms_elapsed g = 99
                   then (if milliseconds g = 9 then 0 else milliseconds g + 1)
                   else milliseconds g),
                seconds :=
                  (if ms_elapsed g = 99 \<and> milliseconds g = 9
                   then (if seconds g = 59 then 0 else seconds g + 1)
                   else seconds g),
                minutes :=
                  (if ms_elapsed g = 99 \<and> milliseconds g = 9 \<and> seconds g = 59
                   then (if minutes g = 9 then 0 else minutes g + 1)
                   else minutes g)\<rparr>)"
proof (intro conjI impI)
  assume "ms_elapsed g = 99 \<and> milliseconds g = 9 \<and> seconds g = 59 \<and> minutes g = 9"
  with assms show "Timer_0A_Periodic_Task g =
      g\<lparr>ms_elapsed := 0, milliseconds := 0, seconds := 0, minutes := 0\<rparr>"
    by (simp add: Timer_0A_Periodic_Task_def Let_def)
next
  assume b: "ms_elapsed g \<le> 99 \<and> milliseconds g \<le> 9 \<and> seconds g \<le> 59 \<and> minutes g \<le> 9"
  then have c: "99 < ms_elapsed g + 1 \<longleftrightarrow> ms_elapsed g = 99"
    "9 < milliseconds g + 1 \<longleftrightarrow> milliseconds g = 9"
    "59 < seconds g + 1 \<longleftrightarrow> seconds g = 59"
    "9 < minutes g + 1 \<longleftrightarrow> minutes g = 9"
    by (simp_all add: u8_carry)
  from b have d: "\<not> 9 < milliseconds g" "\<not> 59 < seconds g" "\<not> 9 < minutes g"
    by (simp_all add: not_less)
  from assms show "Timer_0A_Periodic_Task g =
      g\<lparr>ms_elapsed := (if ms_elapsed g = 99 then 0 else ms_elapsed g + 1),
        milliseconds :=
          (if ms_elapsed g = 99
           then (if milliseconds g = 9 then 0 else milliseconds g + 1)
           else milliseconds g),
        seconds :=
          (if ms_elapsed g = 99 \<and> milliseconds g = 9
           then (if seconds g = 59 then 0 else seconds g + 1)
           else seconds g),
        minutes :=
          (if ms_elapsed g = 99 \<and> milliseconds g = 9 \<and> seconds g = 59
           then (if minutes g = 9 then 0 else minutes g + 1)
           else minutes g)\<rparr>"
    by (simp add: Timer_0A_Periodic_Task_def Let_def c d)
qed

theorem cascade_in_one_tick_witness:
  "Timer_0A_Periodic_Task
     \<lparr>counter = 0, ms_elapsed = 99, milliseconds = 9, seconds = 59, minutes = 9,
      start_stopwatch = 1, reset_stopwatch = 0, rgb_led = Some RGB_LED_GREEN\<rparr> =
   \<lparr>counter = 0, ms_elapsed = 0, milliseconds = 0, seconds = 0, minutes = 0,
    start_stopwatch = 1, reset_stopwatch = 0, rgb_led = Some RGB_LED_GREEN\<rparr> \<and>
   Timer_0A_Periodic_Task
     \<lparr>counter = 0, ms_elapsed = 99, milliseconds = 9, seconds = 59, minutes = 5,
      start_stopwatch = 1, reset_stopwatch = 0, rgb_led = Some RGB_LED_GREEN\<rparr> =
   \<lparr>counter = 0, ms_elapsed = 0, milliseconds = 0, seconds = 0, minutes = 6,
    start_stopwatch = 1, reset_stopwatch = 0, rgb_led = Some RGB_LED_GREEN\<rparr> \<and>
   Timer_0A_Periodic_Task
     \<lparr>counter = 0, ms_elapsed = 99, milliseconds = 9, seconds = 30, minutes = 5,
      start_stopwatch = 1, reset_stopwatch = 0, rgb_led = Some RGB_LED_GREEN\<rparr> =
   \<lparr>counter = 0, ms_elapsed = 0, milliseconds = 0, seconds = 31, minutes = 5,
    start_stopwatch = 1, reset_stopwatch = 0, rgb_led = Some RGB_LED_GREEN\<rparr> \<and>
   Timer_0A_Periodic_Task
     \<lparr>counter = 0, ms_elapsed = 41, milliseconds = 9, seconds = 59, minutes = 9,
      start_stopwatch = 1, reset_stopwatch = 0, rgb_led = Some RGB_LED_GREEN\<rparr> =
   \<lparr>counter = 0, ms_elapsed = 42, milliseconds = 9, seconds = 59, minutes = 9,
    start_stopwatch = 1, reset_stopwatch = 0, rgb_led = Some RGB_LED_GREEN\<rparr>"
  using
    cascade_in_one_tick
      [of "\<lparr>counter = 0, ms_elapsed = 99, milliseconds = 9, seconds = 59, minutes = 9,
            start_stopwatch = 1, reset_stopwatch = 0, rgb_led = Some RGB_LED_GREEN\<rparr>"]
    cascade_in_one_tick
      [of "\<lparr>counter = 0, ms_elapsed = 99, milliseconds = 9, seconds = 59, minutes = 5,
            start_stopwatch = 1, reset_stopwatch = 0, rgb_led = Some RGB_LED_GREEN\<rparr>"]
    cascade_in_one_tick
      [of "\<lparr>counter = 0, ms_elapsed = 99, milliseconds = 9, seconds = 30, minutes = 5,
            start_stopwatch = 1, reset_stopwatch = 0, rgb_led = Some RGB_LED_GREEN\<rparr>"]
    cascade_in_one_tick
      [of "\<lparr>counter = 0, ms_elapsed = 41, milliseconds = 9, seconds = 59, minutes = 9,
            start_stopwatch = 1, reset_stopwatch = 0, rgb_led = Some RGB_LED_GREEN\<rparr>"]
  by simp

text \<open>
  Claim C3. With the stopwatch running and a reset pending, one timer interrupt ends with both
  flags cleared and all four time counters at 0, whatever the counters held before and whatever
  carries happened earlier in the same invocation.
\<close>

theorem reset_wins:
  assumes "start_stopwatch g = 1" "reset_stopwatch g = 1"
  shows "reset_stopwatch (Timer_0A_Periodic_Task g) = 0 \<and>
         start_stopwatch (Timer_0A_Periodic_Task g) = 0 \<and>
         ms_elapsed (Timer_0A_Periodic_Task g) = 0 \<and>
         milliseconds (Timer_0A_Periodic_Task g) = 0 \<and>
         seconds (Timer_0A_Periodic_Task g) = 0 \<and>
         minutes (Timer_0A_Periodic_Task g) = 0"
  by (simp add: Timer_reset [OF assms])

theorem reset_wins_witness:
  "reset_stopwatch (Timer_0A_Periodic_Task
     \<lparr>counter = 3, ms_elapsed = 99, milliseconds = 9, seconds = 59, minutes = 9,
      start_stopwatch = 1, reset_stopwatch = 1, rgb_led = None\<rparr>) = 0 \<and>
   start_stopwatch (Timer_0A_Periodic_Task
     \<lparr>counter = 3, ms_elapsed = 99, milliseconds = 9, seconds = 59, minutes = 9,
      start_stopwatch = 1, reset_stopwatch = 1, rgb_led = None\<rparr>) = 0 \<and>
   ms_elapsed (Timer_0A_Periodic_Task
     \<lparr>counter = 3, ms_elapsed = 99, milliseconds = 9, seconds = 59, minutes = 9,
      start_stopwatch = 1, reset_stopwatch = 1, rgb_led = None\<rparr>) = 0 \<and>
   milliseconds (Timer_0A_Periodic_Task
     \<lparr>counter = 3, ms_elapsed = 99, milliseconds = 9, seconds = 59, minutes = 9,
      start_stopwatch = 1, reset_stopwatch = 1, rgb_led = None\<rparr>) = 0 \<and>
   seconds (Timer_0A_Periodic_Task
     \<lparr>counter = 3, ms_elapsed = 99, milliseconds = 9, seconds = 59, minutes = 9,
      start_stopwatch = 1, reset_stopwatch = 1, rgb_led = None\<rparr>) = 0 \<and>
   minutes (Timer_0A_Periodic_Task
     \<lparr>counter = 3, ms_elapsed = 99, milliseconds = 9, seconds = 59, minutes = 9,
      start_stopwatch = 1, reset_stopwatch = 1, rgb_led = None\<rparr>) = 0"
  using reset_wins
    [of "\<lparr>counter = 3, ms_elapsed = 99, milliseconds = 9, seconds = 59, minutes = 9,
          start_stopwatch = 1, reset_stopwatch = 1, rgb_led = None\<rparr>"]
  by simp

text \<open>
  Claim C4. The bounds \<open>ms_elapsed \<le> 99\<close>, \<open>milliseconds \<le> 9\<close>, \<open>seconds \<le> 59\<close>,
  \<open>minutes \<le> 9\<close> and \<open>counter \<le> 15\<close> are kept by the timer task, by the PMOD button handler
  and by the EduBase button handler for every status byte, and so they hold in every state that
  is reachable from the initial one. (The counters are unsigned bytes, so they are never
  negative.)
\<close>

theorem bounds_invariant:
  "(in_bounds g \<longrightarrow>
      in_bounds (Timer_0A_Periodic_Task g) \<and> in_bounds (PMOD_BTN_Handler b g) \<and>
      in_bounds (EduBase_Button_Handler b' g)) \<and>
   (reachable g \<longrightarrow> in_bounds g)"
  by (simp add: Timer_in_bounds PMOD_in_bounds EduBase_in_bounds reachable_in_bounds)

theorem bounds_invariant_witness:
  "reachable (handle (EduBase_Button 4) init_globals) \<and>
   in_bounds (handle (EduBase_Button 4) init_globals) \<and>
   in_bounds (Timer_0A_Periodic_Task (handle (EduBase_Button 4) init_globals)) \<and>
   in_bounds (PMOD_BTN_Handler 4 (handle (EduBase_Button 4) init_globals)) \<and>
   in_bounds (EduBase_Button_Handler 4 (handle (EduBase_Button 4) init_globals)) \<and>
   counter (handle (EduBase_Button 4) init_globals) = 15"
proof -
  have r: "reachable (handle (EduBase_Button 4) init_globals)"
    by (rule reachable_step [OF reachable_init])
  have c: "counter (handle (EduBase_Button 4) init_globals) = 15"
    by (simp add: EduBase_Button_Handler_def init_globals_def)
  from r c bounds_invariant [of "handle (EduBase_Button 4) init_globals" 4 4]
  show ?thesis by blast
qed

text \<open>
  Claim C5. From the initial state with \<open>start_stopwatch\<close> set, 600000 consecutive timer
  interrupts bring \<open>minutes\<close>, \<open>seconds\<close> and \<open>milliseconds\<close> back to 0: one interrupt
  earlier \<open>minutes\<close> is 9, and it wraps to 0 with no carry.
\<close>

theorem full_wrap_after_600000_ticks:
  "minutes (ticks 600000 (init_globals\<lparr>start_stopwatch := 1\<rparr>)) = 0 \<and>
   seconds (ticks 600000 (init_globals\<lparr>start_stopwatch := 1\<rparr>)) = 0 \<and>
   milliseconds (ticks 600000 (init_globals\<lparr>start_stopwatch := 1\<rparr>)) = 0 \<and>
   minutes (ticks 599999 (init_globals\<lparr>start_stopwatch := 1\<rparr>)) = 9"
proof -
  let ?g = "init_globals\<lparr>start_stopwatch := 1\<rparr>"
  have b: "in_bounds ?g" and s: "start_stopwatch ?g = 1" and r: "reset_stopwatch ?g \<noteq> 1"
    and e: "elapsed ?g = 0"
    by (simp_all add: in_bounds_def init_globals_def elapsed_def)
  have "unat (minutes (ticks 600000 ?g)) = 0" "unat (seconds (ticks 600000 ?g)) = 0"
    "unat (milliseconds (ticks 600000 ?g)) = 0" "unat (minutes (ticks 599999 ?g)) = unat (9 :: uint8_t)"
    by (simp_all add: ticks_digits [OF b s r] e)
  then show ?thesis
    by (simp only: unat_eq_0 word_unat_eq_iff)
qed

text \<open>
  Claim C6 says that 1000 consecutive timer interrupts of a running stopwatch increment
  \<open>milliseconds\<close> exactly once. The code increments \<open>milliseconds\<close> once every 100 interrupts:
  in the state right after the start button is pressed for the first time, \<open>milliseconds\<close> is 0
  before the 1000 interrupts and 0 again after them, not 1.
\<close>

theorem thousand_ticks_counterexample:
  "reachable (PMOD_BTN_Handler 4 init_globals) \<and>
   start_stopwatch (PMOD_BTN_Handler 4 init_globals) = 1 \<and>
   reset_stopwatch (PMOD_BTN_Handler 4 init_globals) \<noteq> 1 \<and>
   milliseconds (PMOD_BTN_Handler 4 init_globals) = 0 \<and>
   milliseconds (ticks 1000 (PMOD_BTN_Handler 4 init_globals)) = 0 \<and>
   milliseconds (ticks 1000 (PMOD_BTN_Handler 4 init_globals)) \<noteq>
     milliseconds (PMOD_BTN_Handler 4 init_globals) + 1"
proof -
  let ?g = "PMOD_BTN_Handler 4 init_globals"
  have "reachable (handle (PMOD_BTN 4) init_globals)"
    by (rule reachable_step [OF reachable_init])
  then have re: "reachable ?g" by simp
  have b: "in_bounds ?g" and s: "start_stopwatch ?g = 1" and r: "reset_stopwatch ?g \<noteq> 1"
    and e: "elapsed ?g = 0" and m: "milliseconds ?g = 0"
    by (simp_all add: in_bounds_def init_globals_def elapsed_def PMOD_BTN_Handler_def)
  have "unat (milliseconds (ticks 1000 ?g)) = 0"
    by (simp add: ticks_digits [OF b s r] e)
  then have "milliseconds (ticks 1000 ?g) = 0"
    by (simp only: unat_eq_0)
  with re s r m show ?thesis by simp
qed

text \<open>
  Claim C6, as the code has it. For every reachable state in which the stopwatch is running and no
  reset is pending: 100 consecutive timer interrupts increment \<open>milliseconds\<close> exactly once
  (from 9 it wraps to 0) and bring \<open>ms_elapsed\<close> back to the value it had; 1000 consecutive
  timer interrupts bring both \<open>milliseconds\<close> and \<open>ms_elapsed\<close> back to the values they had
  and increment \<open>seconds\<close> exactly once (from 59 it wraps to 0).
\<close>

theorem hundred_and_thousand_ticks:
  assumes "reachable g" "start_stopwatch g = 1" "reset_stopwatch g \<noteq> 1"
  shows "unat (milliseconds (ticks 100 g)) = (unat (milliseconds g) + 1) mod 10 \<and>
         ms_elapsed (ticks 100 g) = ms_elapsed g \<and>
         milliseconds (ticks 1000 g) = milliseconds g \<and>
         ms_elapsed (ticks 1000 g) = ms_elapsed g \<and>
         unat (seconds (ticks 1000 g)) = (unat (seconds g) + 1) mod 60"
proof -
  have b: "in_bounds g" by (rule reachable_in_bounds [OF assms(1)])
  note d = ticks_digits [OF b assms(2,3)]
  note o = elapsed_digits [OF b]
  have "unat (milliseconds (ticks 100 g)) = (unat (milliseconds g) + 1) mod 10"
    by (simp only: d o shift_digits)
  moreover have "unat (ms_elapsed (ticks 100 g)) = unat (ms_elapsed g)"
    by (simp only: d o shift_digits)
  moreover have "unat (milliseconds (ticks 1000 g)) = unat (milliseconds g)"
    by (simp only: d o shift_digits)
  moreover have "unat (ms_elapsed (ticks 1000 g)) = unat (ms_elapsed g)"
    by (simp only: d o shift_digits)
  moreover have "unat (seconds (ticks 1000 g)) = (unat (seconds g) + 1) mod 60"
    by (simp only: d o shift_digits)
  ultimately show ?thesis
    by (simp only: word_unat_eq_iff)
qed

theorem hundred_and_thousand_ticks_witness:
  "reachable (PMOD_BTN_Handler 4 init_globals) \<and>
   start_stopwatch (PMOD_BTN_Handler 4 init_globals) = 1 \<and>
   reset_stopwatch (PMOD_BTN_Handler 4 init_globals) \<noteq> 1 \<and>
   unat (milliseconds (ticks 100 (PMOD_BTN_Handler 4 init_globals))) = 1 \<and>
   ms_elapsed (ticks 100 (PMOD_BTN_Handler 4 init_globals)) = 0 \<and>
   milliseconds (ticks 1000 (PMOD_BTN_Handler 4 init_globals)) = 0 \<and>
   ms_elapsed (ticks 1000 (PMOD_BTN_Handler 4 init_globals)) = 0 \<and>
   unat (seconds (ticks 1000 (PMOD_BTN_Handler 4 init_globals))) = 1"
proof -
  let ?g = "PMOD_BTN_Handler 4 init_globals"
  have "reachable (handle (PMOD_BTN 4) init_globals)"
    by (rule reachable_step [OF reachable_init])
  then have re: "reachable ?g" by simp
  have s: "start_stopwatch ?g = 1" and r: "reset_stopwatch ?g \<noteq> 1"
    and z: "milliseconds ?g = 0" "ms_elapsed ?g = 0" "seconds ?g = 0"
    by (simp_all add: init_globals_def PMOD_BTN_Handler_def)
  from hundred_and_thousand_ticks [OF re s r] re s r show ?thesis
    by (simp add: z)
qed

text \<open>
  Claim C7. With the display counter at 0, one EduBase interrupt with status 0x04 takes it to 15
  and 16 of them in a row take it back to 0, leaving the whole state as it was; with the display
  counter at 15, one EduBase interrupt with status 0x08 takes it to 0.
\<close>

theorem display_counter_wraps:
  "counter (EduBase_Button_Handler 4 (g\<lparr>counter := 0\<rparr>)) = 15 \<and>
   presses 16 4 (g\<lparr>counter := 0\<rparr>) = g\<lparr>counter := 0\<rparr> \<and>
   counter (EduBase_Button_Handler 8 (g\<lparr>counter := 15\<rparr>)) = 0"
  by (simp add: presses_numeral EduBase_dec EduBase_inc)

text \<open>
  Claim C8. On the 4-element array of \<^verbatim>\<open>main\<close>, \<^verbatim>\<open>Calculate_Stopwatch_Value\<close> produces
  \<open>[milliseconds, seconds mod 10, seconds div 10, minutes]\<close> in every state, whatever the array
  held before: for \<open>milliseconds = 7\<close>, \<open>seconds = 45\<close>, \<open>minutes = 3\<close> that is \<open>[7, 5, 4, 3]\<close>,
  and a second call in the same state, on the array the first call filled, produces the same
  array again.
\<close>

theorem formatter_projection:
  assumes "length a = 4"
  shows "Calculate_Stopwatch_Value g a =
           [milliseconds g, seconds g mod 10, seconds g div 10, minutes g] \<and>
         Calculate_Stopwatch_Value (g\<lparr>milliseconds := 7, seconds := 45, minutes := 3\<rparr>) a =
           [7, 5, 4, 3] \<and>
         Calculate_Stopwatch_Value g (Calculate_Stopwatch_Value g a) =
           Calculate_Stopwatch_Value g a"
proof -
  from assms obtain a0 a1 a2 a3 where a: "a = [a0, a1, a2, a3]"
    by (auto simp add: eval_nat_numeral length_Suc_conv)
  have m: "(45 :: uint8_t) mod 10 = 5" and d: "(45 :: uint8_t) div 10 = 4"
    by simp_all
  show ?thesis
    by (simp add: a Calculate_Stopwatch_Value_def m d)
qed

theorem formatter_projection_witness:
  "length [0, 0, 0, 0 :: uint8_t] = 4 \<and>
   Calculate_Stopwatch_Value init_globals [0, 0, 0, 0] =
     [milliseconds init_globals, seconds init_globals mod 10, seconds init_globals div 10,
      minutes init_globals] \<and>
   Calculate_Stopwatch_Value (init_globals\<lparr>milliseconds := 7, seconds := 45, minutes := 3\<rparr>)
     [0, 0, 0, 0] = [7, 5, 4, 3] \<and>
   Calculate_Stopwatch_Value init_globals (Calculate_Stopwatch_Value init_globals [0, 0, 0, 0]) =
     Calculate_Stopwatch_Value init_globals [0, 0, 0, 0]"
proof -
  have h: "length [0, 0, 0, 0 :: uint8_t] = 4" by simp
  show ?thesis using h formatter_projection [OF h, of init_globals] by blast
qed

text \<open>
  Claim C9. When \<open>milliseconds \<le> 9\<close>, \<open>seconds \<le> 59\<close> and \<open>minutes \<le> 9\<close>, every element of
  the array that \<^verbatim>\<open>Calculate_Stopwatch_Value\<close> fills is at most 9.
\<close>

theorem digits_are_decimal:
  assumes "milliseconds g \<le> 9" "seconds g \<le> 59" "minutes g \<le> 9" "length a = 4"
  shows "\<forall>d \<in> set (Calculate_Stopwatch_Value g a). d \<le> 9"
proof -
  from assms(4) obtain a0 a1 a2 a3 where a: "a = [a0, a1, a2, a3]"
    by (auto simp add: eval_nat_numeral length_Suc_conv)
  have s: "unat (seconds g) \<le> 59" using assms(2) by (simp add: word_le_nat_alt)
  have "unat (seconds g mod 10) = unat (seconds g) mod 10" by (simp add: unat_mod)
  then have lo: "seconds g mod 10 \<le> 9" by (simp add: word_le_nat_alt)
  have "unat (seconds g div 10) = unat (seconds g) div 10" by (simp add: unat_div)
  with s have hi: "seconds g div 10 \<le> 9" by (simp add: word_le_nat_alt)
  from assms(1,3) lo hi show ?thesis
    by (simp add: a Calculate_Stopwatch_Value_def)
qed

theorem digits_are_decimal_witness:
  "milliseconds (init_globals\<lparr>milliseconds := 9, seconds := 59, minutes := 9\<rparr>) \<le> 9 \<and>
   seconds (init_globals\<lparr>milliseconds := 9, seconds := 59, minutes := 9\<rparr>) \<le> 59 \<and>
   minutes (init_globals\<lparr>milliseconds := 9, seconds := 59, minutes := 9\<rparr>) \<le> 9 \<and>
   length [0, 0, 0, 0 :: uint8_t] = 4 \<and>
   Calculate_Stopwatch_Value
     (init_globals\<lparr>milliseconds := 9, seconds := 59, minutes := 9\<rparr>) [0, 0, 0, 0] ! 0 \<le> 9 \<and>
   Calculate_Stopwatch_Value
     (init_globals\<lparr>milliseconds := 9, seconds := 59, minutes := 9\<rparr>) [0, 0, 0, 0] ! 1 \<le> 9 \<and>
   Calculate_Stopwatch_Value
     (init_globals\<lparr>milliseconds := 9, seconds := 59, minutes := 9\<rparr>) [0, 0, 0, 0] ! 2 \<le> 9 \<and>
   Calculate_Stopwatch_Value
     (init_globals\<lparr>milliseconds := 9, seconds := 59, minutes := 9\<rparr>) [0, 0, 0, 0] ! 3 \<le> 9"
proof -
  let ?g = "init_globals\<lparr>milliseconds := 9, seconds := 59, minutes := 9\<rparr>"
  let ?v = "Calculate_Stopwatch_Value ?g [0, 0, 0, 0]"
  have h: "milliseconds ?g \<le> 9" "seconds ?g \<le> 59" "minutes ?g \<le> 9"
    "length [0, 0, 0, 0 :: uint8_t] = 4"
    by simp_all
  have "length ?v = 4"
    by (simp add: Calculate_Stopwatch_Value_def)
  then have "?v ! 0 \<in> set ?v" "?v ! 1 \<in> set ?v" "?v ! 2 \<in> set ?v" "?v ! 3 \<in> set ?v"
    by (simp_all only: nth_mem)
  with digits_are_decimal [OF h] h show ?thesis by blast
qed

text \<open>
  Claim C10. In every state, reachable or not: after the PMOD handler has taken the reset status
  0x10 and then the start status 0x04, the next timer interrupt ends with \<open>start_stopwatch\<close>
  and \<open>reset_stopwatch\<close> both 0 and all four time counters at 0. The start that followed the
  reset is undone.
\<close>

theorem reset_then_start_stays_stopped:
  "start_stopwatch (Timer_0A_Periodic_Task (PMOD_BTN_Handler 4 (PMOD_BTN_Handler 16 g))) = 0 \<and>
   reset_stopwatch (Timer_0A_Periodic_Task (PMOD_BTN_Handler 4 (PMOD_BTN_Handler 16 g))) = 0 \<and>
   ms_elapsed (Timer_0A_Periodic_Task (PMOD_BTN_Handler 4 (PMOD_BTN_Handler 16 g))) = 0 \<and>
   milliseconds (Timer_0A_Periodic_Task (PMOD_BTN_Handler 4 (PMOD_BTN_Handler 16 g))) = 0 \<and>
   seconds (Timer_0A_Periodic_Task (PMOD_BTN_Handler 4 (PMOD_BTN_Handler 16 g))) = 0 \<and>
   minutes (Timer_0A_Periodic_Task (PMOD_BTN_Handler 4 (PMOD_BTN_Handler 16 g))) = 0"
  by (simp add: Timer_reset PMOD_BTN_Handler_def)

end
